theory Spec2Isabelle
  imports Main
begin

section \<open>Python values and exceptions\<close>

text \<open>
  The module \<^verbatim>\<open>cisco_deviot/thing.py\<close> is dynamically typed. The values that flow through
  it are modelled by a small universe: \<^verbatim>\<open>None\<close>, booleans, (unbounded) integers and strings.
  \<^verbatim>\<open>py_eq\<close> is Python's \<^verbatim>\<open>==\<close> on this universe: \<^verbatim>\<open>bool\<close> is a subclass of \<^verbatim>\<open>int\<close>, so
  \<^verbatim>\<open>True == 1\<close> and \<^verbatim>\<open>False == 0\<close> hold, and values of unrelated types are unequal.
  \<^verbatim>\<open>py_truthy\<close> is the truth test of an \<^verbatim>\<open>if\<close> statement.
\<close>

datatype pyval = PyNone | PyBool bool | PyInt int | PyStr string

fun py_eq :: "pyval \<Rightarrow> pyval \<Rightarrow> bool" where
  "py_eq PyNone PyNone = True"
| "py_eq (PyBool a) (PyBool b) = (a = b)"
| "py_eq (PyInt i) (PyInt j) = (i = j)"
| "py_eq (PyBool a) (PyInt j) = ((if a then 1 else 0) = j)"
| "py_eq (PyInt i) (PyBool b) = (i = (if b then 1 else 0))"
| "py_eq (PyStr s) (PyStr t) = (s = t)"
| "py_eq _ _ = False"

fun py_truthy :: "pyval \<Rightarrow> bool" where
  "py_truthy PyNone = False"
| "py_truthy (PyBool b) = b"
| "py_truthy (PyInt i) = (i \<noteq> 0)"
| "py_truthy (PyStr s) = (s \<noteq> [])"

text \<open>The exceptions the module can raise by itself.\<close>

datatype error = AttributeError | IndexError | RuntimeError | TypeError

text \<open>
  A \<^verbatim>\<open>dict\<close> with string keys is an association list with distinct keys, in insertion
  order (the order in which Python 3 iterates it).
\<close>

type_synonym dict = "(string \<times> pyval) list"

definition dict_keys :: "dict \<Rightarrow> string list" where
  "dict_keys d = map fst d"

definition dict_del :: "string \<Rightarrow> dict \<Rightarrow> dict" where
  "dict_del k d = filter (\<lambda>kv. fst kv \<noteq> k) d"

fun dict_set :: "string \<Rightarrow> pyval \<Rightarrow> dict \<Rightarrow> dict" where
  "dict_set k v [] = [(k, v)]"
| "dict_set k v (kv # d) = (if fst kv = k then (k, v) # d else kv # dict_set k v d)"

section \<open>PropertyType and default values\<close>

text \<open>
  \<^verbatim>\<open>class PropertyType(EnumMeta)\<close> only holds four class attributes bound to plain
  integers; \<^verbatim>\<open>PropertyType.INT\<close> is the integer \<^verbatim>\<open>0\<close>, and so on.
\<close>

definition PropertyType_INT :: pyval where
  "PropertyType_INT = PyInt 0"

definition PropertyType_STRING :: pyval where
  "PropertyType_STRING = PyInt 1"

definition PropertyType_BOOL :: pyval where
  "PropertyType_BOOL = PyInt 2"

definition PropertyType_COLOR :: pyval where
  "PropertyType_COLOR = PyInt 3"

definition default_value_for_type :: "pyval \<Rightarrow> pyval" where
  "default_value_for_type stype =
     (if py_eq stype PropertyType_INT then PyInt 0
      else if py_eq stype PropertyType_BOOL then PyBool False
      else if py_eq stype PropertyType_STRING then PyStr ''''
      else if py_eq stype PropertyType_COLOR then PyStr ''FFFFFF''
      else PyNone)"

section \<open>Property\<close>

record property =
  prop_name :: string
  prop_type :: pyval
  prop_value :: pyval
  prop_range :: pyval
  prop_unit :: pyval
  prop_description :: pyval

text \<open>
  \<^verbatim>\<open>Property.__init__(self, name, type=PropertyType.INT, value=None, range=None,
  unit=None, description=None)\<close>. The two keyword arguments whose omission matters are
  options: \<open>None\<close> is an omitted argument, which Python replaces by the declared default.
  \<^verbatim>\<open>value is None\<close> is an identity test against the \<^verbatim>\<open>None\<close> object, so an explicit
  \<^verbatim>\<open>value=None\<close> is treated like an omitted one. The last three arguments are stored as
  they come; omitted, they are \<^verbatim>\<open>None\<close>.
\<close>

definition Property_init ::
  "string \<Rightarrow> pyval option \<Rightarrow> pyval option \<Rightarrow> pyval \<Rightarrow> pyval \<Rightarrow> pyval \<Rightarrow> property" where
  "Property_init name type_arg value_arg range_arg unit_arg description_arg =
     (let stype = (case type_arg of None \<Rightarrow> PropertyType_INT | Some t \<Rightarrow> t);
          val0 = (case value_arg of None \<Rightarrow> PyNone | Some v \<Rightarrow> v);
          val = (if val0 = PyNone then default_value_for_type stype else val0)
      in \<lparr> prop_name = name, prop_type = stype, prop_value = val,
           prop_range = range_arg, prop_unit = unit_arg,
           prop_description = description_arg \<rparr>)"

section \<open>Action\<close>

text \<open>
  An \<^verbatim>\<open>Action\<close> instance. \<^verbatim>\<open>need_payload\<close> is the entry of that name in the instance
  dictionary (\<open>None\<close>: the instance has no such entry). The class also defines a method
  of the same name; Python looks an attribute up in the instance dictionary before the
  functions of the class, so the method is reachable only while the entry is absent.
\<close>

record action =
  act_name :: string
  parameters :: "property list"
  need_payload :: "pyval option"

text \<open>
  \<^verbatim>\<open>Action.__init__(self, name, **kwargs)\<close>: one parameter per keyword, in the order of the
  keywords; the keyword's value goes to the second positional argument of \<^verbatim>\<open>Property\<close>,
  which is \<^verbatim>\<open>type\<close>. The constructor then stores \<^verbatim>\<open>False\<close> under \<^verbatim>\<open>need_payload\<close>.
\<close>

definition Action_init :: "string \<Rightarrow> dict \<Rightarrow> action" where
  "Action_init name kwargs =
     \<lparr> act_name = name,
       parameters = map (\<lambda>kv. Property_init (fst kv) (Some (snd kv)) None PyNone PyNone PyNone) kwargs,
       need_payload = Some (PyBool False) \<rparr>"

definition add_parameter :: "action \<Rightarrow> property \<Rightarrow> action" where
  "add_parameter a action_parameter = a\<lparr>parameters := parameters a @ [action_parameter]\<rparr>"

text \<open>The body of the method \<^verbatim>\<open>def need_payload(self, payload)\<close>.\<close>

definition Action_need_payload :: "action \<Rightarrow> pyval \<Rightarrow> action" where
  "Action_need_payload a payload = a\<lparr>need_payload := Some payload\<rparr>"

text \<open>
  What the expression \<^verbatim>\<open>a.need_payload\<close> evaluates to: the instance's own value when the
  instance dictionary has the entry, the bound method of the class otherwise.
\<close>

datatype attribute = InstanceValue pyval | BoundMethod

definition getattr_need_payload :: "action \<Rightarrow> attribute" where
  "getattr_need_payload a =
     (case need_payload a of Some v \<Rightarrow> InstanceValue v | None \<Rightarrow> BoundMethod)"

text \<open>
  The call \<^verbatim>\<open>a.need_payload(payload)\<close>: calling a value that is not callable (none of
  the values of \<open>pyval\<close> is) raises \<^verbatim>\<open>TypeError\<close>.
\<close>

definition call_need_payload :: "action \<Rightarrow> pyval \<Rightarrow> error + action" where
  "call_need_payload a payload =
     (case getattr_need_payload a of
        InstanceValue v \<Rightarrow> Inl TypeError
      | BoundMethod \<Rightarrow> Inr (Action_need_payload a payload))"

text \<open>The test \<^verbatim>\<open>if action_model.need_payload:\<close>; a bound method is true.\<close>

definition need_payload_truthy :: "action \<Rightarrow> bool" where
  "need_payload_truthy a =
     (case getattr_need_payload a of InstanceValue v \<Rightarrow> py_truthy v | BoundMethod \<Rightarrow> True)"

section \<open>Thing\<close>

text \<open>
  The entries of \<^verbatim>\<open>Thing.properties\<close>. \<^verbatim>\<open>add_property\<close> is the only method that appends to
  the list, and it appends the argument it was given, which at that point is either a
  \<^verbatim>\<open>str\<close> or a \<^verbatim>\<open>Property\<close>; the entry type holds exactly these two cases.
\<close>

datatype entry = StrEntry string | PropEntry property

text \<open>
  An argument of the variadic registration methods: any plain value, a \<^verbatim>\<open>Property\<close> or
  an \<^verbatim>\<open>Action\<close>.
\<close>

datatype pyobj = Val pyval | PropertyObj property | ActionObj action

record thing =
  thing_id :: string
  thing_name :: string
  kind :: string
  properties :: "entry list"
  actions :: "action list"
  options :: dict

text \<open>
  \<^verbatim>\<open>Thing.__init__(self, id, name, kind=None)\<close>. \<open>lowered_class_name\<close> is the value of
  \<^verbatim>\<open>self.__class__.__name__.lower()\<close>: the name of the concrete class of the instance,
  lower-cased by the built-in \<^verbatim>\<open>str.lower\<close>, which is outside the module and is taken
  as given.
\<close>

definition Thing_init :: "string \<Rightarrow> string \<Rightarrow> string \<Rightarrow> string option \<Rightarrow> thing" where
  "Thing_init lowered_class_name ident name kind_arg =
     \<lparr> thing_id = ident, thing_name = name,
       kind = (case kind_arg of Some k \<Rightarrow> k | None \<Rightarrow> lowered_class_name),
       properties = [], actions = [], options = [] \<rparr>"

text \<open>\<^verbatim>\<open>Thing.__str__\<close>: \<^verbatim>\<open>"{id}.{name}({kind})"\<close>.\<close>

definition Thing_str :: "thing \<Rightarrow> string" where
  "Thing_str t = thing_id t @ ''.'' @ thing_name t @ ''('' @ kind t @ '')''"

subsection \<open>The logging collaborator\<close>

text \<open>
  \<^verbatim>\<open>cisco_deviot.logger\<close> is outside the module; the model keeps the sequence of calls made
  to it. A message is kept as its template and the values formatted into it.
\<close>

datatype message =
    InvalidProperty pyobj
  | AlreadyRegistered string
  | InvalidAction pyobj
  | ActionCalled string string dict

datatype log_entry = LogError message | LogInfo message

text \<open>The state the methods of a Thing work on: the instance and the log.\<close>

record world =
  w_thing :: thing
  w_log :: "log_entry list"

definition log_error :: "message \<Rightarrow> world \<Rightarrow> world" where
  "log_error m w = w\<lparr>w_log := w_log w @ [LogError m]\<rparr>"

definition log_info :: "message \<Rightarrow> world \<Rightarrow> world" where
  "log_info m w = w\<lparr>w_log := w_log w @ [LogInfo m]\<rparr>"

subsection \<open>Reading the property collection\<close>

text \<open>
  The attribute reads \<^verbatim>\<open>property.name\<close> and \<^verbatim>\<open>prop.value\<close> on an entry of the collection:
  a \<^verbatim>\<open>str\<close> has neither attribute, and the read raises \<^verbatim>\<open>AttributeError\<close>.
\<close>

fun entry_name :: "entry \<Rightarrow> error + string" where
  "entry_name (StrEntry s) = Inl AttributeError"
| "entry_name (PropEntry p) = Inr (prop_name p)"

fun entry_value :: "entry \<Rightarrow> error + pyval" where
  "entry_value (StrEntry s) = Inl AttributeError"
| "entry_value (PropEntry p) = Inr (prop_value p)"

text \<open>The comprehension \<^verbatim>\<open>[property.name for property in self.properties]\<close>.\<close>

fun entry_names :: "entry list \<Rightarrow> error + string list" where
  "entry_names [] = Inr []"
| "entry_names (e # es) =
     (case entry_name e of
        Inl err \<Rightarrow> Inl err
      | Inr n \<Rightarrow> (case entry_names es of Inl err \<Rightarrow> Inl err | Inr ns \<Rightarrow> Inr (n # ns)))"

definition has_property :: "thing \<Rightarrow> string \<Rightarrow> error + bool" where
  "has_property t prop =
     (case entry_names (properties t) of
        Inl err \<Rightarrow> Inl err
      | Inr ns \<Rightarrow> Inr (prop \<in> set ns))"

text \<open>
  \<^verbatim>\<open>get_data\<close>: the comprehension \<^verbatim>\<open>{prop.name: prop.value for prop in self.properties}\<close>,
  built from left to right.
\<close>

fun get_data_from :: "dict \<Rightarrow> entry list \<Rightarrow> error + dict" where
  "get_data_from d [] = Inr d"
| "get_data_from d (e # es) =
     (case entry_name e of
        Inl err \<Rightarrow> Inl err
      | Inr n \<Rightarrow>
          (case entry_value e of
             Inl err \<Rightarrow> Inl err
           | Inr v \<Rightarrow> get_data_from (dict_set n v d) es))"

definition get_data :: "thing \<Rightarrow> error + dict" where
  "get_data t = get_data_from [] (properties t)"

subsection \<open>Registration\<close>

text \<open>
  The loop of \<^verbatim>\<open>add_property(self, *thing_properties)\<close>. The result is the exception that
  left the method, if any, and the state at that point. \<^verbatim>\<open>continue\<close> goes on with the
  remaining arguments, \<^verbatim>\<open>break\<close> returns at once. The last statement of the body appends
  \<^verbatim>\<open>property\<close>, the argument itself, not \<^verbatim>\<open>added_property\<close>.
\<close>

definition register_entry :: "entry \<Rightarrow> world \<Rightarrow> world" where
  "register_entry e w = w\<lparr>w_thing := (w_thing w)\<lparr>properties := properties (w_thing w) @ [e]\<rparr>\<rparr>"

fun add_property :: "pyobj list \<Rightarrow> world \<Rightarrow> error option \<times> world" where
  "add_property [] w = (None, w)"
| "add_property (Val (PyStr s) # rest) w =
     (let added_property = Property_init s None None PyNone PyNone PyNone in
      case has_property (w_thing w) (prop_name added_property) of
        Inl err \<Rightarrow> (Some err, w)
      | Inr True \<Rightarrow> (None, log_error (AlreadyRegistered (prop_name added_property)) w)
      | Inr False \<Rightarrow> add_property rest (register_entry (StrEntry s) w))"
| "add_property (PropertyObj p # rest) w =
     (let added_property = p in
      case has_property (w_thing w) (prop_name added_property) of
        Inl err \<Rightarrow> (Some err, w)
      | Inr True \<Rightarrow> (None, log_error (AlreadyRegistered (prop_name added_property)) w)
      | Inr False \<Rightarrow> add_property rest (register_entry (PropEntry p) w))"
| "add_property (x # rest) w = add_property rest (log_error (InvalidProperty x) w)"

definition register_action :: "action \<Rightarrow> world \<Rightarrow> world" where
  "register_action a w = w\<lparr>w_thing := (w_thing w)\<lparr>actions := actions (w_thing w) @ [a]\<rparr>\<rparr>"

fun add_action :: "pyobj list \<Rightarrow> world \<Rightarrow> world" where
  "add_action [] w = w"
| "add_action (Val (PyStr s) # rest) w = add_action rest (register_action (Action_init s []) w)"
| "add_action (ActionObj a # rest) w = add_action rest (register_action a w)"
| "add_action (x # rest) w = add_action rest (log_error (InvalidAction x) w)"

subsection \<open>Updating property values\<close>

text \<open>
  The inner loop of \<^verbatim>\<open>update_property\<close>: the first entry whose name equals the key gets
  the new value, and the scan stops there. Reading \<^verbatim>\<open>existing_prop.name\<close> raises on a
  \<^verbatim>\<open>str\<close> entry.
\<close>

fun update_first :: "string \<Rightarrow> pyval \<Rightarrow> entry list \<Rightarrow> error + entry list" where
  "update_first n v [] = Inr []"
| "update_first n v (StrEntry s # es) = Inl AttributeError"
| "update_first n v (PropEntry p # es) =
     (if n = prop_name p then Inr (PropEntry (p\<lparr>prop_value := v\<rparr>) # es)
      else (case update_first n v es of
              Inl err \<Rightarrow> Inl err
            | Inr es' \<Rightarrow> Inr (PropEntry p # es')))"

text \<open>
  The outer loop over the keyword arguments \<^verbatim>\<open>**new_properties\<close>, a dict. The values
  written before an exception stay written.
\<close>

fun update_property :: "dict \<Rightarrow> world \<Rightarrow> error option \<times> world" where
  "update_property [] w = (None, w)"
| "update_property (kv # rest) w =
     (case update_first (fst kv) (snd kv) (properties (w_thing w)) of
        Inl err \<Rightarrow> (Some err, w)
      | Inr es \<Rightarrow> update_property rest (w\<lparr>w_thing := (w_thing w)\<lparr>properties := es\<rparr>\<rparr>))"

subsection \<open>Dispatching an action\<close>

text \<open>
  The filtering loop of \<^verbatim>\<open>call_action\<close>:
  \<^verbatim>\<open>for k in args.keys(): if k not in valid_args: del args[k]\<close>.
  The module imports the standard library's \<^verbatim>\<open>enum\<close>, so it is read as Python 3, where
  \<^verbatim>\<open>args.keys()\<close> is a view of the dict and the loop iterates the dict itself. Every
  step of that iterator, the one that finds the keys exhausted included, first compares
  the size of the dict with its size when the loop started and raises \<^verbatim>\<open>RuntimeError\<close>
  (dictionary changed size during iteration) when they differ. Until a key is deleted
  the dict is unchanged, so the keys still to come are the rest of the keys at the start;
  after a deletion the next step raises. \<open>used\<close> is the size at the start, \<open>args\<close> the
  caller's dict, which \<^verbatim>\<open>del\<close> changes in place.
\<close>

fun filter_args :: "string list \<Rightarrow> nat \<Rightarrow> string list \<Rightarrow> dict \<Rightarrow> error option \<times> dict" where
  "filter_args [] used valid_args args =
     (if length args \<noteq> used then (Some RuntimeError, args) else (None, args))"
| "filter_args (k # ks) used valid_args args =
     (if length args \<noteq> used then (Some RuntimeError, args)
      else filter_args ks used valid_args
             (if k \<in> set valid_args then args else dict_del k args))"

text \<open>
  The keys of \<^verbatim>\<open>valid_args\<close>: the names of the declared parameters, and \<^verbatim>\<open>"payload"\<close> when
  \<^verbatim>\<open>action_model.need_payload\<close> is true.
\<close>

definition valid_args_of :: "action \<Rightarrow> string list" where
  "valid_args_of action_model =
     map prop_name (parameters action_model) @
     (if need_payload_truthy action_model then [''payload''] else [])"

text \<open>
  The implementations of the actions are members of the host object, outside the module.
  \<open>members method\<close> is what \<^verbatim>\<open>getattr(self, method)\<close> finds (\<open>None\<close>: no such attribute,
  \<^verbatim>\<open>AttributeError\<close>); the member is given by what \<^verbatim>\<open>action_method.__call__(**args)\<close>
  does: from the keyword arguments, a fresh dict built from \<^verbatim>\<open>args\<close>, and the state, it
  either returns or raises, and leaves a new state.
\<close>

type_synonym impl = "dict \<Rightarrow> world \<Rightarrow> error option \<times> world"

text \<open>
  \<^verbatim>\<open>call_action(self, method, args)\<close>. The result is the exception that left the method,
  if any, the caller's \<^verbatim>\<open>args\<close> dict and the state, both as they are at that point.
\<close>

definition call_action ::
  "(string \<Rightarrow> impl option) \<Rightarrow> string \<Rightarrow> dict \<Rightarrow> world \<Rightarrow> error option \<times> dict \<times> world" where
  "call_action members method args w =
     (case members method of
        None \<Rightarrow> (Some AttributeError, args, w)
      | Some action_method \<Rightarrow>
          (case filter (\<lambda>a. act_name a = method) (actions (w_thing w)) of
             [] \<Rightarrow> (Some IndexError, args, w)
           | action_model # others \<Rightarrow>
               (case filter_args (dict_keys args) (length args) (valid_args_of action_model) args of
                  (Some err, args') \<Rightarrow> (Some err, args', w)
                | (None, args') \<Rightarrow>
                    (case action_method args' w of
                       (Some err, w') \<Rightarrow> (Some err, args', w')
                     | (None, w') \<Rightarrow>
                         (None, args',
                          log_info (ActionCalled (Thing_str (w_thing w')) method args') w')))))"

section \<open>Properties of the default values and of the constructors\<close>

lemma PropertyType_values:
  "PropertyType_INT = PyInt 0" "PropertyType_STRING = PyInt 1"
  "PropertyType_BOOL = PyInt 2" "PropertyType_COLOR = PyInt 3"
  by (simp_all add: PropertyType_INT_def PropertyType_STRING_def PropertyType_BOOL_def
      PropertyType_COLOR_def)

text \<open>
  Claim C7. \<^verbatim>\<open>default_value_for_type\<close> is a total function without effects (a HOL
  function of its argument alone). It returns \<^verbatim>\<open>0\<close> for \<^verbatim>\<open>PropertyType.INT\<close>, \<^verbatim>\<open>False\<close> for
  \<^verbatim>\<open>PropertyType.BOOL\<close>, the empty string for \<^verbatim>\<open>PropertyType.STRING\<close>, \<^verbatim>\<open>"FFFFFF"\<close> for
  \<^verbatim>\<open>PropertyType.COLOR\<close>, and \<^verbatim>\<open>None\<close> for every other input. The four members are the
  integers 0 to 3 and the function compares with \<^verbatim>\<open>==\<close>, so "other" is: not equal, by
  \<^verbatim>\<open>==\<close>, to any of the four.
\<close>

theorem default_value_for_type_table:
  "default_value_for_type PropertyType_INT = PyInt 0
   \<and> default_value_for_type PropertyType_BOOL = PyBool False
   \<and> default_value_for_type PropertyType_STRING = PyStr ''''
   \<and> default_value_for_type PropertyType_COLOR = PyStr ''FFFFFF''
   \<and> (\<forall>v. \<not> py_eq v PropertyType_INT \<and> \<not> py_eq v PropertyType_BOOL
          \<and> \<not> py_eq v PropertyType_STRING \<and> \<not> py_eq v PropertyType_COLOR
        \<longrightarrow> default_value_for_type v = PyNone)"
  by (simp add: default_value_for_type_def PropertyType_values)

theorem default_value_for_type_table_witness:
  "default_value_for_type (PyInt 4) = PyNone
   \<and> default_value_for_type (PyInt (- 1)) = PyNone
   \<and> default_value_for_type (PyStr ''INT'') = PyNone
   \<and> default_value_for_type PyNone = PyNone"
  using default_value_for_type_table by (simp add: PropertyType_values)

text \<open>
  Since \<^verbatim>\<open>True == 1\<close> and \<^verbatim>\<open>False == 0\<close> in Python, a boolean argument is equal to a member
  and gets that member's default.
\<close>

lemma default_value_for_type_bool:
  "default_value_for_type (PyBool False) = PyInt 0"
  "default_value_for_type (PyBool True) = PyStr ''''"
  by (simp_all add: default_value_for_type_def PropertyType_values)

text \<open>
  Claim C8. A \<^verbatim>\<open>Property\<close> constructed without a value gets the default value of its
  declared type (of \<^verbatim>\<open>PropertyType.INT\<close> when the type is omitted too); constructed with
  an explicit value \<open>v\<close> other than \<^verbatim>\<open>None\<close>, it stores \<open>v\<close> unchanged, whatever the type,
  also when \<open>v\<close> is false in Python's sense (\<^verbatim>\<open>0\<close>, \<^verbatim>\<open>False\<close>, the empty string).
\<close>

theorem Property_init_value:
  "prop_value (Property_init n t None r u d)
     = default_value_for_type (case t of None \<Rightarrow> PropertyType_INT | Some ty \<Rightarrow> ty)
   \<and> (\<forall>v. v \<noteq> PyNone \<longrightarrow> prop_value (Property_init n t (Some v) r u d) = v)"
  by (simp add: Property_init_def Let_def)

theorem Property_init_value_witness:
  "prop_value (Property_init ''level'' None None PyNone PyNone PyNone) = PyInt 0
   \<and> prop_value (Property_init ''tint'' (Some PropertyType_COLOR) None PyNone PyNone PyNone)
       = PyStr ''FFFFFF''
   \<and> prop_value (Property_init ''tint'' (Some PropertyType_COLOR) (Some (PyInt 0)) PyNone PyNone PyNone)
       = PyInt 0
   \<and> prop_value (Property_init ''on'' (Some PropertyType_INT) (Some (PyBool False)) PyNone PyNone PyNone)
       = PyBool False
   \<and> prop_value (Property_init ''label'' (Some PropertyType_INT) (Some (PyStr '''')) PyNone PyNone PyNone)
       = PyStr ''''"
  using Property_init_value [of "''level''" None PyNone PyNone PyNone]
    Property_init_value [of "''tint''" "Some PropertyType_COLOR" PyNone PyNone PyNone]
    Property_init_value [of "''on''" "Some PropertyType_INT" PyNone PyNone PyNone]
    Property_init_value [of "''label''" "Some PropertyType_INT" PyNone PyNone PyNone]
  by (simp add: default_value_for_type_def PropertyType_values)

text \<open>An explicit \<^verbatim>\<open>value=None\<close> cannot be told from an omitted value.\<close>

lemma Property_init_explicit_None:
  "Property_init n t (Some PyNone) r u d = Property_init n t None r u d"
  by (simp add: Property_init_def)

lemma Property_init_fields:
  "prop_name (Property_init n t v r u d) = n"
  "prop_type (Property_init n (Some ty) v r u d) = ty"
  "prop_type (Property_init n None v r u d) = PropertyType_INT"
  by (simp_all add: Property_init_def Let_def)

text \<open>
  Claim C5. For every action name \<open>n\<close> and every keyword argument \<open>k = t\<close> of
  \<^verbatim>\<open>Action(n, ...)\<close>, the parameters of the new Action contain a \<^verbatim>\<open>Property\<close> whose name is
  \<open>k\<close>, whose type is \<open>t\<close> and whose value is \<^verbatim>\<open>default_value_for_type(t)\<close>: the keyword's
  value selects the type and is not stored as the value.
\<close>

theorem Action_init_kwarg_is_type:
  "(k, t) \<in> set kwargs \<Longrightarrow>
   \<exists>p \<in> set (parameters (Action_init n kwargs)).
      prop_name p = k \<and> prop_type p = t \<and> prop_value p = default_value_for_type t"
  by (force simp: Action_init_def Property_init_def Let_def)

theorem Action_init_kwarg_is_type_witness:
  "(''color'', PropertyType_COLOR) \<in> set [(''size'', PropertyType_INT), (''color'', PropertyType_COLOR)]
   \<and> (\<exists>p \<in> set (parameters (Action_init ''setColor''
                  [(''size'', PropertyType_INT), (''color'', PropertyType_COLOR)])).
         prop_name p = ''color'' \<and> prop_type p = PyInt 3 \<and> prop_value p = PyStr ''FFFFFF'')"
proof -
  have h: "(''color'', PropertyType_COLOR)
      \<in> set [(''size'', PropertyType_INT), (''color'', PropertyType_COLOR)]"
    by simp
  from Action_init_kwarg_is_type [OF h, of "''setColor''"] show ?thesis
    by (simp add: default_value_for_type_def PropertyType_values)
qed

lemma Action_init_parameters:
  "map prop_name (parameters (Action_init n kwargs)) = map fst kwargs"
  "map prop_type (parameters (Action_init n kwargs)) = map snd kwargs"
  by (simp_all add: Action_init_def Property_init_def Let_def comp_def)

text \<open>
  Claim C6. The claim says that calling the setter \<^verbatim>\<open>need_payload(True)\<close> on a constructed
  Action marks it and returns it. In the code the constructor stores \<^verbatim>\<open>False\<close> in the
  instance attribute \<^verbatim>\<open>need_payload\<close>, which hides the method of the same name: the call
  \<^verbatim>\<open>Action(n, ...).need_payload(payload)\<close> calls that boolean and raises \<^verbatim>\<open>TypeError\<close>, for
  every name, every keyword arguments and every payload.
\<close>

theorem need_payload_setter_not_callable:
  "call_need_payload (Action_init n kwargs) payload = Inl TypeError"
  by (simp add: call_need_payload_def getattr_need_payload_def Action_init_def)

text \<open>
  The flag can only be set by assigning the attribute; the dispatch then accepts
  \<^verbatim>\<open>"payload"\<close>.
\<close>

lemma valid_args_of_payload_flag:
  "valid_args_of (a\<lparr>need_payload := Some (PyBool True)\<rparr>)
     = map prop_name (parameters a) @ [''payload'']"
  "valid_args_of (Action_init n kwargs) = map fst kwargs"
  by (simp_all add: valid_args_of_def need_payload_truthy_def getattr_need_payload_def
      Action_init_def Property_init_def Let_def comp_def)

section \<open>Properties of registration\<close>

text \<open>
  Claim C2. The claim says that the second \<^verbatim>\<open>add_property("temp")\<close> on a Thing that had no
  properties logs an error and leaves one \<^verbatim>\<open>Property\<close> named temp, of type INT and value 0. In the
  code the first call appends the string \<^verbatim>\<open>"temp"\<close> itself (the \<^verbatim>\<open>Property\<close> built from
  it is only used for the name check), and the second call raises \<^verbatim>\<open>AttributeError\<close> in
  \<^verbatim>\<open>_has_property\<close>, which reads \<^verbatim>\<open>.name\<close> of that string; nothing is logged by either
  call.
\<close>

theorem add_property_temp_twice:
  "add_property [Val (PyStr ''temp'')] \<lparr>w_thing = Thing_init c i n k, w_log = lg\<rparr>
     = (None, \<lparr>w_thing = (Thing_init c i n k)\<lparr>properties := [StrEntry ''temp'']\<rparr>, w_log = lg\<rparr>)
   \<and> add_property [Val (PyStr ''temp'')]
        \<lparr>w_thing = (Thing_init c i n k)\<lparr>properties := [StrEntry ''temp'']\<rparr>, w_log = lg\<rparr>
     = (Some AttributeError,
        \<lparr>w_thing = (Thing_init c i n k)\<lparr>properties := [StrEntry ''temp'']\<rparr>, w_log = lg\<rparr>)"
  by (simp add: Thing_init_def has_property_def register_entry_def Property_init_def)

text \<open>
  Claim C3. The claim says that \<^verbatim>\<open>add_property(42, "d")\<close> on a Thing holding the properties
  a, b, c ends with entries for the names a, b, c, d. The code does report 42 and go on,
  but what it then appends is the string \<^verbatim>\<open>"d"\<close>, not a \<^verbatim>\<open>Property\<close> named d: the
  collection ends as three properties and a string, and reading it (\<^verbatim>\<open>get_data\<close>, the name
  listing of \<^verbatim>\<open>_has_property\<close>) raises \<^verbatim>\<open>AttributeError\<close>.
\<close>

theorem add_property_invalid_then_name:
  "add_property [Val (PyInt 42), Val (PyStr ''d'')]
     \<lparr>w_thing = t\<lparr>properties :=
                  [PropEntry (Property_init ''a'' None None PyNone PyNone PyNone),
                   PropEntry (Property_init ''b'' None None PyNone PyNone PyNone),
                   PropEntry (Property_init ''c'' None None PyNone PyNone PyNone)]\<rparr>,
      w_log = lg\<rparr>
     = (None,
        \<lparr>w_thing = t\<lparr>properties :=
                     [PropEntry (Property_init ''a'' None None PyNone PyNone PyNone),
                      PropEntry (Property_init ''b'' None None PyNone PyNone PyNone),
                      PropEntry (Property_init ''c'' None None PyNone PyNone PyNone),
                      StrEntry ''d'']\<rparr>,
         w_log = lg @ [LogError (InvalidProperty (Val (PyInt 42)))]\<rparr>)
   \<and> get_data (t\<lparr>properties :=
                  [PropEntry (Property_init ''a'' None None PyNone PyNone PyNone),
                   PropEntry (Property_init ''b'' None None PyNone PyNone PyNone),
                   PropEntry (Property_init ''c'' None None PyNone PyNone PyNone),
                   StrEntry ''d'']\<rparr>) = Inl AttributeError
   \<and> has_property (t\<lparr>properties :=
                  [PropEntry (Property_init ''a'' None None PyNone PyNone PyNone),
                   PropEntry (Property_init ''b'' None None PyNone PyNone PyNone),
                   PropEntry (Property_init ''c'' None None PyNone PyNone PyNone),
                   StrEntry ''d'']\<rparr>) ''d'' = Inl AttributeError"
  by (simp add: has_property_def register_entry_def Property_init_def log_error_def get_data_def)

text \<open>
  The defect behind both: whatever the state, a string that passes the name check is
  appended as a string, and from then on every registration of a string or a
  \<^verbatim>\<open>Property\<close> raises.
\<close>

lemma entry_names_StrEntry:
  "StrEntry s \<in> set es \<Longrightarrow> entry_names es = Inl AttributeError"
proof (induction es)
  case Nil
  then show ?case by simp
next
  case (Cons e es)
  show ?case
  proof (cases e)
    case (StrEntry s')
    then show ?thesis by simp
  next
    case (PropEntry p)
    with Cons show ?thesis by auto
  qed
qed

lemma add_property_after_string:
  assumes "StrEntry s \<in> set (properties (w_thing w))"
  shows "add_property (Val (PyStr s') # rest) w = (Some AttributeError, w)"
    and "add_property (PropertyObj p # rest) w = (Some AttributeError, w)"
  using entry_names_StrEntry [OF assms] by (simp_all add: has_property_def)

lemma add_property_string_registers_string:
  assumes "entry_names (properties (w_thing w)) = Inr ns" and "s \<notin> set ns"
  shows "add_property [Val (PyStr s)] w = (None, register_entry (StrEntry s) w)"
  using assms by (simp add: has_property_def Property_init_def)

section \<open>Properties of the update of values\<close>

lemma update_first_hit:
  "entry_names es = Inr ns \<Longrightarrow> n \<in> set ns \<Longrightarrow>
   \<exists>i p. i < length es \<and> es ! i = PropEntry p \<and> prop_name p = n
        \<and> (\<forall>j<i. entry_name (es ! j) \<noteq> Inr n)
        \<and> update_first n v es = Inr (es[i := PropEntry (p\<lparr>prop_value := v\<rparr>)])"
proof (induction es arbitrary: ns)
  case Nil
  then show ?case by simp
next
  case (Cons e es)
  show ?case
  proof (cases e)
    case (StrEntry s)
    with Cons.prems show ?thesis by simp
  next
    case (PropEntry q)
    with Cons.prems obtain ms where ms: "entry_names es = Inr ms" "ns = prop_name q # ms"
      by (auto split: sum.splits)
    show ?thesis
    proof (cases "n = prop_name q")
      case True
      have "0 < length (e # es) \<and> (e # es) ! 0 = PropEntry q \<and> prop_name q = n
          \<and> (\<forall>j<(0::nat). entry_name ((e # es) ! j) \<noteq> Inr n)
          \<and> update_first n v (e # es) = Inr ((e # es)[0 := PropEntry (q\<lparr>prop_value := v\<rparr>)])"
        using True PropEntry by simp
      then show ?thesis by blast
    next
      case False
      with ms Cons.prems have "n \<in> set ms" by simp
      from Cons.IH [OF ms(1) this] obtain i p where ip:
        "i < length es" "es ! i = PropEntry p" "prop_name p = n"
        "\<forall>j<i. entry_name (es ! j) \<noteq> Inr n"
        "update_first n v es = Inr (es[i := PropEntry (p\<lparr>prop_value := v\<rparr>)])"
        by blast
      have "\<forall>j<Suc i. entry_name ((e # es) ! j) \<noteq> Inr n"
      proof (intro allI impI)
        fix j assume "j < Suc i"
        then show "entry_name ((e # es) ! j) \<noteq> Inr n"
          using ip(4) False PropEntry by (cases j) auto
      qed
      then have "Suc i < length (e # es) \<and> (e # es) ! Suc i = PropEntry p \<and> prop_name p = n
          \<and> (\<forall>j<Suc i. entry_name ((e # es) ! j) \<noteq> Inr n)
          \<and> update_first n v (e # es)
              = Inr ((e # es)[Suc i := PropEntry (p\<lparr>prop_value := v\<rparr>)])"
        using ip False PropEntry by simp
      then show ?thesis by blast
    qed
  qed
qed

lemma update_first_miss:
  "entry_names es = Inr ns \<Longrightarrow> n \<notin> set ns \<Longrightarrow> update_first n v es = Inr es"
proof (induction es arbitrary: ns)
  case Nil
  then show ?case by simp
next
  case (Cons e es)
  then show ?case by (cases e) (auto split: sum.splits)
qed

lemma entry_names_update_value:
  "entry_names es = Inr ns \<Longrightarrow> i < length es \<Longrightarrow> es ! i = PropEntry p \<Longrightarrow>
   entry_names (es[i := PropEntry (p\<lparr>prop_value := v\<rparr>)]) = Inr ns"
proof (induction es arbitrary: i ns)
  case Nil
  then show ?case by simp
next
  case (Cons e es)
  show ?case
  proof (cases i)
    case 0
    with Cons.prems show ?thesis by (auto split: sum.splits)
  next
    case (Suc k)
    from Cons.prems(1) obtain m ms where ms: "entry_name e = Inr m" "entry_names es = Inr ms"
      "ns = m # ms"
      by (auto split: sum.splits)
    from Cons.prems Suc have "k < length es" "es ! k = PropEntry p" by simp_all
    from Cons.IH [OF ms(2) this] ms Suc show ?thesis by simp
  qed
qed

text \<open>
  On a Thing whose property collection holds only \<^verbatim>\<open>Property\<close> objects (its name listing
  succeeds, with names \<open>ns\<close>) among which are the names x and y, \<^verbatim>\<open>update_property(x=10)\<close>
  returns normally and replaces the collection by itself with one entry changed: the
  first entry named x, whose value becomes 10 and whose other fields stay. The length,
  the names and their order, every other entry (the ones named y among them) and the
  rest of the state, the log included, are unchanged. For a name z that is not
  registered, \<^verbatim>\<open>update_property(z=1)\<close> returns normally and leaves the whole state as it
  was, logging nothing.
\<close>

lemma update_property_frame:
  assumes names: "entry_names (properties (w_thing w)) = Inr ns"
    and x: "''x'' \<in> set ns" and y: "''y'' \<in> set ns" and z: "''z'' \<notin> set ns"
  shows "(\<exists>es' i p.
            update_property [(''x'', PyInt 10)] w
              = (None, w\<lparr>w_thing := (w_thing w)\<lparr>properties := es'\<rparr>\<rparr>)
            \<and> i < length (properties (w_thing w))
            \<and> properties (w_thing w) ! i = PropEntry p \<and> prop_name p = ''x''
            \<and> (\<forall>j<i. entry_name (properties (w_thing w) ! j) \<noteq> Inr ''x'')
            \<and> es' = (properties (w_thing w))[i := PropEntry (p\<lparr>prop_value := PyInt 10\<rparr>)]
            \<and> length es' = length (properties (w_thing w))
            \<and> entry_names es' = Inr ns
            \<and> (\<forall>k<length (properties (w_thing w)). k \<noteq> i \<longrightarrow> es' ! k = properties (w_thing w) ! k)
            \<and> (\<forall>k<length (properties (w_thing w)).
                  entry_name (properties (w_thing w) ! k) = Inr ''y'' \<longrightarrow>
                  es' ! k = properties (w_thing w) ! k))
       \<and> update_property [(''z'', PyInt 1)] w = (None, w)"
proof -
  let ?es = "properties (w_thing w)"
  from update_first_hit [OF names x, of "PyInt 10"] obtain i p where ip:
    "i < length ?es" "?es ! i = PropEntry p" "prop_name p = ''x''"
    "\<forall>j<i. entry_name (?es ! j) \<noteq> Inr ''x''"
    "update_first ''x'' (PyInt 10) ?es = Inr (?es[i := PropEntry (p\<lparr>prop_value := PyInt 10\<rparr>)])"
    by blast
  let ?es' = "?es[i := PropEntry (p\<lparr>prop_value := PyInt 10\<rparr>)]"
  have upd: "update_property [(''x'', PyInt 10)] w
      = (None, w\<lparr>w_thing := (w_thing w)\<lparr>properties := ?es'\<rparr>\<rparr>)"
    using ip(5) by simp
  have len: "length ?es' = length ?es" by simp
  have nms: "entry_names ?es' = Inr ns"
    using entry_names_update_value [OF names ip(1) ip(2)] .
  have others: "\<forall>k<length ?es. k \<noteq> i \<longrightarrow> ?es' ! k = ?es ! k" by simp
  have ys: "\<forall>k<length ?es. entry_name (?es ! k) = Inr ''y'' \<longrightarrow> ?es' ! k = ?es ! k"
  proof (intro allI impI)
    fix k assume "k < length ?es" and "entry_name (?es ! k) = Inr ''y''"
    with ip(2,3) have "k \<noteq> i" by auto
    then show "?es' ! k = ?es ! k" by simp
  qed
  have miss: "update_property [(''z'', PyInt 1)] w = (None, w)"
    using update_first_miss [OF names z, of "PyInt 1"] by simp
  from upd ip(1-4) len nms others ys miss show ?thesis by blast
qed

lemma update_property_frame_example:
  "update_property [(''x'', PyInt 10)]
     \<lparr>w_thing = (Thing_init ''thing'' ''t1'' ''lamp'' None)\<lparr>properties :=
        [PropEntry (Property_init ''x'' None (Some (PyInt 5)) PyNone PyNone PyNone),
         PropEntry (Property_init ''y'' (Some PropertyType_STRING) (Some (PyStr ''red'')) PyNone PyNone PyNone),
         PropEntry (Property_init ''x'' None (Some (PyInt 7)) PyNone PyNone PyNone)]\<rparr>,
      w_log = []\<rparr>
   = (None,
     \<lparr>w_thing = (Thing_init ''thing'' ''t1'' ''lamp'' None)\<lparr>properties :=
        [PropEntry (Property_init ''x'' None (Some (PyInt 10)) PyNone PyNone PyNone),
         PropEntry (Property_init ''y'' (Some PropertyType_STRING) (Some (PyStr ''red'')) PyNone PyNone PyNone),
         PropEntry (Property_init ''x'' None (Some (PyInt 7)) PyNone PyNone PyNone)]\<rparr>,
      w_log = []\<rparr>)
   \<and> update_property [(''z'', PyInt 1)]
     \<lparr>w_thing = (Thing_init ''thing'' ''t1'' ''lamp'' None)\<lparr>properties :=
        [PropEntry (Property_init ''x'' None (Some (PyInt 5)) PyNone PyNone PyNone),
         PropEntry (Property_init ''y'' (Some PropertyType_STRING) (Some (PyStr ''red'')) PyNone PyNone PyNone),
         PropEntry (Property_init ''x'' None (Some (PyInt 7)) PyNone PyNone PyNone)]\<rparr>,
      w_log = []\<rparr>
   = (None,
     \<lparr>w_thing = (Thing_init ''thing'' ''t1'' ''lamp'' None)\<lparr>properties :=
        [PropEntry (Property_init ''x'' None (Some (PyInt 5)) PyNone PyNone PyNone),
         PropEntry (Property_init ''y'' (Some PropertyType_STRING) (Some (PyStr ''red'')) PyNone PyNone PyNone),
         PropEntry (Property_init ''x'' None (Some (PyInt 7)) PyNone PyNone PyNone)]\<rparr>,
      w_log = []\<rparr>)"
proof -
  let ?w = "\<lparr>w_thing = (Thing_init ''thing'' ''t1'' ''lamp'' None)\<lparr>properties :=
        [PropEntry (Property_init ''x'' None (Some (PyInt 5)) PyNone PyNone PyNone),
         PropEntry (Property_init ''y'' (Some PropertyType_STRING) (Some (PyStr ''red'')) PyNone PyNone PyNone),
         PropEntry (Property_init ''x'' None (Some (PyInt 7)) PyNone PyNone PyNone)]\<rparr>,
      w_log = []\<rparr>"
  have h1: "entry_names (properties (w_thing ?w)) = Inr [''x'', ''y'', ''x'']"
    by (simp add: Property_init_def)
  have h2: "''x'' \<in> set [''x'', ''y'', ''x'']" by simp
  have h3: "''y'' \<in> set [''x'', ''y'', ''x'']" by simp
  have h4: "''z'' \<notin> set [''x'', ''y'', ''x'']" by simp
  from update_property_frame [OF h1 h2 h3 h4] show ?thesis
    by (simp add: Property_init_def)
qed

text \<open>
  With a string among the entries (left there by \<^verbatim>\<open>add_property\<close>), a key that no earlier
  entry matches makes the scan reach the string and raise.
\<close>

lemma update_property_reaches_string:
  "update_property [(''z'', PyInt 1)]
     \<lparr>w_thing = t\<lparr>properties := [StrEntry ''temp'']\<rparr>, w_log = lg\<rparr>
   = (Some AttributeError, \<lparr>w_thing = t\<lparr>properties := [StrEntry ''temp'']\<rparr>, w_log = lg\<rparr>)"
  by simp

text \<open>
  Claim C9. The claim says that on every Thing whose registered properties include the
  names x and y, \<^verbatim>\<open>update_property(x=10)\<close> changes the value of x alone and
  \<^verbatim>\<open>update_property(z=1)\<close>, for a name z that is not registered, changes nothing and
  reports nothing. In the code, \<^verbatim>\<open>add_property(Property("x", value=5),
  Property("y", PropertyType.STRING, "red"), "temp")\<close> on a new Thing returns normally and
  leaves the string \<^verbatim>\<open>"temp"\<close> as the last entry of the collection. On that Thing
  \<^verbatim>\<open>update_property(x=10)\<close> stops at x and does what the claim says, but
  \<^verbatim>\<open>update_property(z=1)\<close> scans past x and y, reads \<^verbatim>\<open>.name\<close> of the string and raises
  \<^verbatim>\<open>AttributeError\<close> instead of returning.
\<close>

theorem update_property_unknown_name_raises:
  "add_property
     [PropertyObj (Property_init ''x'' None (Some (PyInt 5)) PyNone PyNone PyNone),
      PropertyObj (Property_init ''y'' (Some PropertyType_STRING) (Some (PyStr ''red'')) PyNone PyNone PyNone),
      Val (PyStr ''temp'')]
     \<lparr>w_thing = Thing_init c i n k, w_log = lg\<rparr>
   = (None,
      \<lparr>w_thing = (Thing_init c i n k)\<lparr>properties :=
         [PropEntry (Property_init ''x'' None (Some (PyInt 5)) PyNone PyNone PyNone),
          PropEntry (Property_init ''y'' (Some PropertyType_STRING) (Some (PyStr ''red'')) PyNone PyNone PyNone),
          StrEntry ''temp'']\<rparr>,
       w_log = lg\<rparr>)
   \<and> update_property [(''z'', PyInt 1)]
      \<lparr>w_thing = (Thing_init c i n k)\<lparr>properties :=
         [PropEntry (Property_init ''x'' None (Some (PyInt 5)) PyNone PyNone PyNone),
          PropEntry (Property_init ''y'' (Some PropertyType_STRING) (Some (PyStr ''red'')) PyNone PyNone PyNone),
          StrEntry ''temp'']\<rparr>,
       w_log = lg\<rparr>
   = (Some AttributeError,
      \<lparr>w_thing = (Thing_init c i n k)\<lparr>properties :=
         [PropEntry (Property_init ''x'' None (Some (PyInt 5)) PyNone PyNone PyNone),
          PropEntry (Property_init ''y'' (Some PropertyType_STRING) (Some (PyStr ''red'')) PyNone PyNone PyNone),
          StrEntry ''temp'']\<rparr>,
       w_log = lg\<rparr>)
   \<and> update_property [(''x'', PyInt 10)]
      \<lparr>w_thing = (Thing_init c i n k)\<lparr>properties :=
         [PropEntry (Property_init ''x'' None (Some (PyInt 5)) PyNone PyNone PyNone),
          PropEntry (Property_init ''y'' (Some PropertyType_STRING) (Some (PyStr ''red'')) PyNone PyNone PyNone),
          StrEntry ''temp'']\<rparr>,
       w_log = lg\<rparr>
   = (None,
      \<lparr>w_thing = (Thing_init c i n k)\<lparr>properties :=
         [PropEntry (Property_init ''x'' None (Some (PyInt 10)) PyNone PyNone PyNone),
          PropEntry (Property_init ''y'' (Some PropertyType_STRING) (Some (PyStr ''red'')) PyNone PyNone PyNone),
          StrEntry ''temp'']\<rparr>,
       w_log = lg\<rparr>)"
  by (simp add: Thing_init_def has_property_def register_entry_def Property_init_def)

section \<open>Properties of the dispatch\<close>

text \<open>
  Claim C4. On a Thing with no registered Action named unknown,
  \<^verbatim>\<open>call_action("unknown", {})\<close> does not return normally: it raises \<^verbatim>\<open>AttributeError\<close> (no
  member of that name) or \<^verbatim>\<open>IndexError\<close> (a member, but no declared Action), whatever
  members the host object has. The state, the log included, is as before the call: no
  entry is logged.
\<close>

theorem call_action_unknown_fails:
  assumes "''unknown'' \<notin> set (map act_name (actions (w_thing w)))"
  shows "\<exists>e. (e = AttributeError \<or> e = IndexError)
           \<and> call_action members ''unknown'' [] w = (Some e, [], w)"
proof (cases "members ''unknown''")
  case None
  then show ?thesis by (simp add: call_action_def)
next
  case (Some f)
  from assms have "filter (\<lambda>a. act_name a = ''unknown'') (actions (w_thing w)) = []"
    by (force simp: filter_empty_conv)
  with Some show ?thesis by (simp add: call_action_def)
qed

theorem call_action_unknown_fails_witness:
  "''unknown'' \<notin> set (map act_name (actions (w_thing
       \<lparr>w_thing = (Thing_init ''thing'' ''lamp1'' ''lamp'' None)\<lparr>actions :=
                    [Action_init ''setColor'' [(''color'', PropertyType_COLOR)]]\<rparr>,
        w_log = []\<rparr>)))
   \<and> call_action Map.empty ''unknown'' []
       \<lparr>w_thing = (Thing_init ''thing'' ''lamp1'' ''lamp'' None)\<lparr>actions :=
                    [Action_init ''setColor'' [(''color'', PropertyType_COLOR)]]\<rparr>,
        w_log = []\<rparr>
     = (Some AttributeError, [],
       \<lparr>w_thing = (Thing_init ''thing'' ''lamp1'' ''lamp'' None)\<lparr>actions :=
                    [Action_init ''setColor'' [(''color'', PropertyType_COLOR)]]\<rparr>,
        w_log = []\<rparr>)
   \<and> call_action [''unknown'' \<mapsto> (\<lambda>kwargs w. (None, w))] ''unknown'' []
       \<lparr>w_thing = (Thing_init ''thing'' ''lamp1'' ''lamp'' None)\<lparr>actions :=
                    [Action_init ''setColor'' [(''color'', PropertyType_COLOR)]]\<rparr>,
        w_log = []\<rparr>
     = (Some IndexError, [],
       \<lparr>w_thing = (Thing_init ''thing'' ''lamp1'' ''lamp'' None)\<lparr>actions :=
                    [Action_init ''setColor'' [(''color'', PropertyType_COLOR)]]\<rparr>,
        w_log = []\<rparr>)"
proof -
  let ?w = "\<lparr>w_thing = (Thing_init ''thing'' ''lamp1'' ''lamp'' None)\<lparr>actions :=
                    [Action_init ''setColor'' [(''color'', PropertyType_COLOR)]]\<rparr>,
        w_log = []\<rparr>"
  have h: "''unknown'' \<notin> set (map act_name (actions (w_thing ?w)))"
    by (simp add: Action_init_def)
  from h call_action_unknown_fails [OF h, of Map.empty]
    call_action_unknown_fails [OF h, of "[''unknown'' \<mapsto> (\<lambda>kwargs w. (None, w))]"]
  show ?thesis
    by (simp add: call_action_def Action_init_def)
qed

subsection \<open>The filtering loop\<close>

lemma filter_args_size_changed:
  "length args \<noteq> used \<Longrightarrow> filter_args ks used valid_args args = (Some RuntimeError, args)"
  by (cases ks) simp_all

lemma filter_args_all_accepted:
  "set ks \<subseteq> set valid_args \<Longrightarrow> filter_args ks (length args) valid_args args = (None, args)"
  by (induction ks) simp_all

lemma length_dict_del:
  assumes "k \<in> set (dict_keys args)"
  shows "length (dict_del k args) < length args"
proof -
  from assms obtain v where "(k, v) \<in> set args"
    by (auto simp: dict_keys_def)
  from length_filter_less [of "(k, v)" args "\<lambda>kv. fst kv \<noteq> k"] this
  show ?thesis by (simp add: dict_del_def)
qed

text \<open>
  As soon as one key of \<^verbatim>\<open>args\<close> is not accepted, the loop ends in \<^verbatim>\<open>RuntimeError\<close>.
\<close>

lemma filter_args_raises:
  "set ks \<subseteq> set (dict_keys args) \<Longrightarrow> \<not> set ks \<subseteq> set valid_args \<Longrightarrow>
   fst (filter_args ks (length args) valid_args args) = Some RuntimeError"
proof (induction ks)
  case Nil
  then show ?case by simp
next
  case (Cons k ks)
  show ?case
  proof (cases "k \<in> set valid_args")
    case True
    with Cons show ?thesis by simp
  next
    case False
    from Cons.prems(1) have "k \<in> set (dict_keys args)" by simp
    then have "length (dict_del k args) \<noteq> length args"
      using length_dict_del [of k args] by simp
    from filter_args_size_changed [OF this] False show ?thesis by simp
  qed
qed

text \<open>
  So the loop returns normally exactly when there is nothing to delete, and then
  \<^verbatim>\<open>args\<close> is unchanged.
\<close>

lemma filter_args_returns_iff:
  "fst (filter_args (dict_keys args) (length args) valid_args args) = None
     \<longleftrightarrow> set (dict_keys args) \<subseteq> set valid_args"
proof (cases "set (dict_keys args) \<subseteq> set valid_args")
  case True
  then show ?thesis by (simp add: filter_args_all_accepted)
next
  case False
  from filter_args_raises [OF subset_refl False] False show ?thesis by simp
qed

text \<open>
  The path on which every key is accepted: the member is called with the arguments as
  given, and after it returns one informational entry is logged.
\<close>

lemma call_action_all_accepted:
  assumes "members method = Some action_method"
    and "filter (\<lambda>a. act_name a = method) (actions (w_thing w)) = action_model # others"
    and "set (dict_keys args) \<subseteq> set (valid_args_of action_model)"
    and "action_method args w = (None, w')"
  shows "call_action members method args w
     = (None, args, log_info (ActionCalled (Thing_str (w_thing w')) method args) w')"
  using assms by (simp add: call_action_def filter_args_all_accepted)

lemma call_action_not_accepted:
  assumes "members method = Some action_method"
    and "filter (\<lambda>a. act_name a = method) (actions (w_thing w)) = action_model # others"
    and "\<not> set (dict_keys args) \<subseteq> set (valid_args_of action_model)"
  shows "fst (call_action members method args w) = Some RuntimeError"
    and "snd (snd (call_action members method args w)) = w"
proof -
  obtain r args' where r: "filter_args (dict_keys args) (length args)
      (valid_args_of action_model) args = (r, args')"
    by (cases "filter_args (dict_keys args) (length args) (valid_args_of action_model) args")
  with filter_args_raises [of "dict_keys args" args "valid_args_of action_model"] assms(3)
  have "r = Some RuntimeError" by simp
  with r assms(1,2) show "fst (call_action members method args w) = Some RuntimeError"
    and "snd (snd (call_action members method args w)) = w"
    by (simp_all add: call_action_def)
qed

text \<open>
  Claim C1. The claim says that \<^verbatim>\<open>call_action("setColor", {"color": "00FF00", "extra": 1})\<close>
  calls the member with \<^verbatim>\<open>color="00FF00"\<close> alone and then logs one informational entry.
  In the code the loop deletes \<^verbatim>\<open>"extra"\<close> from the dict it is iterating, and its next
  step raises \<^verbatim>\<open>RuntimeError\<close>: whatever the member \<open>f\<close> is, it is not called, and nothing
  is logged. The caller's dict is left without \<^verbatim>\<open>"extra"\<close>.
\<close>

theorem call_action_setColor_extra_raises:
  "call_action (members(''setColor'' \<mapsto> f)) ''setColor''
     [(''color'', PyStr ''00FF00''), (''extra'', PyInt 1)]
     \<lparr>w_thing = t\<lparr>actions := [Action_init ''setColor'' [(''color'', PropertyType_COLOR)]]\<rparr>,
      w_log = lg\<rparr>
   = (Some RuntimeError, [(''color'', PyStr ''00FF00'')],
      \<lparr>w_thing = t\<lparr>actions := [Action_init ''setColor'' [(''color'', PropertyType_COLOR)]]\<rparr>,
       w_log = lg\<rparr>)"
  by (simp add: call_action_def valid_args_of_def Action_init_def Property_init_def
      need_payload_truthy_def getattr_need_payload_def dict_keys_def dict_del_def)

text \<open>
  Claim C10. The claim says that \<^verbatim>\<open>call_action\<close> filters the caller's dict in place, so that
  after the call only the accepted keys remain. The code does delete in place, but it
  cannot complete a filtering: on \<^verbatim>\<open>{"a": 1, "b": 2}\<close> and an Action without parameters
  it deletes \<^verbatim>\<open>"a"\<close>, raises \<^verbatim>\<open>RuntimeError\<close> at the next step of the loop and leaves
  \<^verbatim>\<open>"b"\<close>, which is not accepted, in the caller's dict.
\<close>

theorem call_action_filter_stops_at_first_deletion:
  "call_action (members(m \<mapsto> f)) m [(''a'', PyInt 1), (''b'', PyInt 2)]
     \<lparr>w_thing = t\<lparr>actions := [Action_init m []]\<rparr>, w_log = lg\<rparr>
   = (Some RuntimeError, [(''b'', PyInt 2)],
      \<lparr>w_thing = t\<lparr>actions := [Action_init m []]\<rparr>, w_log = lg\<rparr>)"
  by (simp add: call_action_def valid_args_of_def Action_init_def
      need_payload_truthy_def getattr_need_payload_def dict_keys_def dict_del_def)

end
